theory Spec2Isabelle
  imports Complex_Main
begin

section \<open>JavaScript numbers\<close>

text \<open>
  The engine compares JavaScript numbers. A number is modelled as the value it denotes:
  a real, one of the two infinities, or NaN. The special values are kept because
  \<open>parseFloat\<close> and \<open>parseInt\<close> return NaN on a string that holds no number, and every
  comparison with NaN is false. Rounding, overflow and the sign of zero are not
  modelled: arithmetic on finite values is exact.
\<close>

datatype jsnumber = NaN | NegInf | Fin real | PosInf

fun js_lt :: "jsnumber \<Rightarrow> jsnumber \<Rightarrow> bool" where
  "js_lt NaN _ = False"
| "js_lt _ NaN = False"
| "js_lt (Fin x) (Fin y) = (x < y)"
| "js_lt _ NegInf = False"
| "js_lt NegInf _ = True"
| "js_lt PosInf _ = False"
| "js_lt (Fin x) PosInf = True"

fun js_le :: "jsnumber \<Rightarrow> jsnumber \<Rightarrow> bool" where
  "js_le NaN _ = False"
| "js_le _ NaN = False"
| "js_le (Fin x) (Fin y) = (x \<le> y)"
| "js_le NegInf _ = True"
| "js_le _ NegInf = False"
| "js_le _ PosInf = True"
| "js_le PosInf _ = False"

definition js_gt :: "jsnumber \<Rightarrow> jsnumber \<Rightarrow> bool" where
  "js_gt a b = js_lt b a"

definition js_ge :: "jsnumber \<Rightarrow> jsnumber \<Rightarrow> bool" where
  "js_ge a b = js_le b a"

fun js_neg :: "jsnumber \<Rightarrow> jsnumber" where
  "js_neg NaN = NaN"
| "js_neg NegInf = PosInf"
| "js_neg (Fin x) = Fin (- x)"
| "js_neg PosInf = NegInf"

fun js_add :: "jsnumber \<Rightarrow> jsnumber \<Rightarrow> jsnumber" where
  "js_add NaN _ = NaN"
| "js_add _ NaN = NaN"
| "js_add (Fin x) (Fin y) = Fin (x + y)"
| "js_add PosInf NegInf = NaN"
| "js_add NegInf PosInf = NaN"
| "js_add PosInf _ = PosInf"
| "js_add NegInf _ = NegInf"
| "js_add (Fin x) b = b"

definition js_sub :: "jsnumber \<Rightarrow> jsnumber \<Rightarrow> jsnumber" where
  "js_sub a b = js_add a (js_neg b)"

fun js_abs :: "jsnumber \<Rightarrow> jsnumber" where
  "js_abs NaN = NaN"
| "js_abs NegInf = PosInf"
| "js_abs (Fin x) = Fin \<bar>x\<bar>"
| "js_abs PosInf = PosInf"

text \<open>The sign of a number that is not NaN, as \<open>-1\<close>, \<open>0\<close> or \<open>1\<close>.\<close>

fun js_sign :: "jsnumber \<Rightarrow> real" where
  "js_sign NaN = 0"
| "js_sign NegInf = - 1"
| "js_sign (Fin x) = sgn x"
| "js_sign PosInf = 1"

definition signed_inf :: "real \<Rightarrow> jsnumber" where
  "signed_inf s = (if s = 0 then NaN else if 0 < s then PosInf else NegInf)"

fun js_mul :: "jsnumber \<Rightarrow> jsnumber \<Rightarrow> jsnumber" where
  "js_mul NaN _ = NaN"
| "js_mul _ NaN = NaN"
| "js_mul (Fin x) (Fin y) = Fin (x * y)"
| "js_mul a b = signed_inf (js_sign a * js_sign b)"

text \<open>
  Division. A finite value divided by zero is an infinity of the dividend's sign (the
  zero is taken as positive), \<open>0 / 0\<close> and \<open>Infinity / Infinity\<close> are NaN.
\<close>

fun js_div :: "jsnumber \<Rightarrow> jsnumber \<Rightarrow> jsnumber" where
  "js_div NaN _ = NaN"
| "js_div _ NaN = NaN"
| "js_div (Fin x) (Fin y) = (if y = 0 then signed_inf (sgn x) else Fin (x / y))"
| "js_div (Fin x) _ = Fin 0"
| "js_div a (Fin y) = signed_inf (js_sign a * (if y < 0 then - 1 else 1))"
| "js_div _ _ = NaN"

section \<open>Data model (src/types/index.ts)\<close>

record Campaign =
  campaign_id :: string
  campaign_name :: string
  campaign_status :: string
  objective :: string
  created_time :: string
  updated_time :: string

record Action =
  action_type :: string
  action_value :: string

record CampaignInsights =
  spend :: string
  actions :: "Action list option"
  clicks :: string
  impressions :: string
  ctr :: string
  cpc :: string
  cpm :: string
  reach :: string
  frequency :: string
  date_start :: string
  date_stop :: string

text \<open>
  \<open>ComparisonOperator\<close> is a union of six string literals. A rule arrives as JSON, so at
  run time the field can hold any other string; \<open>OpOther\<close> stands for those and reaches
  the \<open>default\<close> branch of \<open>compareValues\<close>.
\<close>

datatype ComparisonOperator = OpGt | OpLt | OpGe | OpLe | OpEq | OpNe | OpOther string

datatype LogicalOperator = LogicalAND | LogicalOR

datatype ActionType = PAUSE_CAMPAIGN | ADJUST_BUDGET | LOG_EVENT | SEND_NOTIFICATION

datatype ParamValue = PString string | PNumber jsnumber | PBoolean bool

type_synonym Parameters = "(string \<times> ParamValue) list"

record RuleCondition =
  cond_id :: string
  cond_field :: string
  cond_operator :: ComparisonOperator
  cond_value :: jsnumber
  logicalOperator :: "LogicalOperator option"

record RuleAction =
  act_type :: ActionType
  act_parameters :: "Parameters option"

record AutomationRule =
  rule_id :: string
  rule_name :: string
  rule_description :: "string option"
  rule_campaignId :: string
  conditions :: "RuleCondition list"
  rule_action :: RuleAction
  isActive :: bool
  createdAt :: string
  updatedAt :: string
  lastTriggered :: "string option"

record CalculatedMetrics =
  roas :: "jsnumber option"
  costPerAction :: "jsnumber option"
  conversionRate :: "jsnumber option"

record CampaignWithInsights =
  campaign :: Campaign
  insights :: "CampaignInsights option"
  calculatedMetrics :: CalculatedMetrics
  lastUpdated :: string

record LogMetadata =
  meta_campaignName :: string
  meta_ruleName :: string
  meta_spend :: string
  meta_ctr :: string

record AutomationLog =
  log_id :: string
  log_ruleId :: string
  log_campaignId :: string
  log_action :: ActionType
  triggered :: bool
  reason :: string
  timestamp :: string
  metadata :: LogMetadata

section \<open>The environment of the engine\<close>

text \<open>
  What the engine takes from outside: the built-in parsers, the identifier and clock
  sources, and the two services. \<open>uuidv4\<close> and \<open>nowISO\<close> are indexed by the number of
  identifiers and dates drawn so far (the \<open>tick\<close> of the state), so successive calls may
  return different values. An awaited call either resolves or rejects; a rejection
  carries the thrown value, an \<open>Error\<close> with its message or something else.
\<close>

datatype thrown = ErrorObject string | NonError

datatype exec_outcome = Rejected thrown | Resolved bool

record env =
  parseFloat :: "string \<Rightarrow> jsnumber"
  parseInt :: "string \<Rightarrow> jsnumber"
  uuidv4 :: "nat \<Rightarrow> string"
  nowISO :: "nat \<Rightarrow> string"
  executor :: "nat \<Rightarrow> string \<Rightarrow> ActionType \<Rightarrow> Parameters option \<Rightarrow> exec_outcome"
  getCampaign :: "string \<Rightarrow> thrown + Campaign"
  getCampaignInsights :: "string \<Rightarrow> CampaignInsights option"

text \<open>
  \<open>MetaAdsService.executeAction\<close> as the repository has it: a simulation that writes to
  the console and resolves with \<open>success: true\<close> for every action.
\<close>

definition MetaAdsService_executeAction ::
  "nat \<Rightarrow> string \<Rightarrow> ActionType \<Rightarrow> Parameters option \<Rightarrow> exec_outcome" where
  "MetaAdsService_executeAction n campaignId action parameters = Resolved True"

text \<open>
  The state: the two static arrays of \<open>AutomationEngine\<close>, the number of identifiers and
  dates drawn so far, and the calls made to the action executor, oldest first.
\<close>

record engine =
  rules :: "AutomationRule list"
  logs :: "AutomationLog list"
  tick :: nat
  execCalls :: "(string \<times> ActionType \<times> Parameters option) list"

section \<open>MetaAdsService.calculateMetrics (src/lib/metaAdsService.ts)\<close>

fun find_first :: "('a \<Rightarrow> bool) \<Rightarrow> 'a list \<Rightarrow> 'a option" where
  "find_first P [] = None"
| "find_first P (x # xs) = (if P x then Some x else find_first P xs)"

definition isCheckout :: "Action \<Rightarrow> bool" where
  "isCheckout a =
     (action_type a = ''omni_initiated_checkout'' \<or>
      action_type a = ''initiate_checkout'' \<or>
      action_type a = ''offsite_conversion.fb_pixel_initiate_checkout'')"

definition calculateMetrics :: "env \<Rightarrow> CampaignInsights option \<Rightarrow> CalculatedMetrics" where
  "calculateMetrics e ins_opt =
     (case ins_opt of
        None \<Rightarrow> \<lparr>roas = None, costPerAction = None, conversionRate = None\<rparr>
      | Some ins \<Rightarrow>
          (let spend_n = parseFloat e (spend ins);
               clicks_n = parseInt e (clicks ins);
               purchaseActions =
                 (case actions ins of None \<Rightarrow> None | Some as \<Rightarrow> find_first isCheckout as);
               conversions =
                 (case purchaseActions of
                    Some a \<Rightarrow> parseInt e (action_value a)
                  | None \<Rightarrow> Fin 0);
               revenue = js_mul conversions (Fin 50)
           in \<lparr>roas = (if js_gt spend_n (Fin 0) then Some (js_div revenue spend_n) else None),
               costPerAction =
                 (if js_gt conversions (Fin 0) then Some (js_div spend_n conversions) else None),
               conversionRate =
                 (if js_gt clicks_n (Fin 0)
                  then Some (js_mul (js_div conversions clicks_n) (Fin 100)) else None)\<rparr>))"

section \<open>AutomationEngine (src/lib/automationEngine.ts)\<close>

subsection \<open>Rule store\<close>

record ConditionInput =
  ci_field :: string
  ci_operator :: ComparisonOperator
  ci_value :: jsnumber
  ci_logicalOperator :: "LogicalOperator option"

record RuleInput =
  in_name :: string
  in_description :: "string option"
  in_campaignId :: string
  in_conditions :: "ConditionInput list"
  in_action :: RuleAction
  in_isActive :: bool

text \<open>
  \<open>addRule\<close> draws the rule's identifier, then two dates, then one identifier for each
  condition in order. The route, its only caller, passes no \<open>lastTriggered\<close>, so the
  new rule has none.
\<close>

fun number_conditions :: "env \<Rightarrow> nat \<Rightarrow> ConditionInput list \<Rightarrow> RuleCondition list" where
  "number_conditions e n [] = []"
| "number_conditions e n (c # cs) =
     \<lparr>cond_id = uuidv4 e n, cond_field = ci_field c, cond_operator = ci_operator c,
      cond_value = ci_value c, logicalOperator = ci_logicalOperator c\<rparr>
     # number_conditions e (Suc n) cs"

definition addRule :: "env \<Rightarrow> RuleInput \<Rightarrow> engine \<Rightarrow> AutomationRule \<times> engine" where
  "addRule e rule st =
     (let n = tick st;
          newRule = \<lparr>rule_id = uuidv4 e n,
                     rule_name = in_name rule,
                     rule_description = in_description rule,
                     rule_campaignId = in_campaignId rule,
                     conditions = number_conditions e (n + 3) (in_conditions rule),
                     rule_action = in_action rule,
                     isActive = in_isActive rule,
                     createdAt = nowISO e (n + 1),
                     updatedAt = nowISO e (n + 2),
                     lastTriggered = None\<rparr>
      in (newRule, st\<lparr>rules := rules st @ [newRule],
                       tick := n + 3 + length (in_conditions rule)\<rparr>))"

definition getRules :: "engine \<Rightarrow> AutomationRule list" where
  "getRules st = rules st"

definition getRulesForCampaign :: "engine \<Rightarrow> string \<Rightarrow> AutomationRule list" where
  "getRulesForCampaign st campaignId =
     filter (\<lambda>rule. rule_campaignId rule = campaignId \<and> isActive rule) (rules st)"

text \<open>\<open>Array.prototype.findIndex\<close>: the first index whose element satisfies the test;
  \<open>None\<close> is the \<open>-1\<close> of JavaScript.\<close>

fun findIndex :: "('a \<Rightarrow> bool) \<Rightarrow> 'a list \<Rightarrow> nat option" where
  "findIndex P [] = None"
| "findIndex P (x # xs) =
     (if P x then Some 0 else (case findIndex P xs of None \<Rightarrow> None | Some i \<Rightarrow> Some (Suc i)))"

text \<open>
  \<open>Partial<AutomationRule>\<close>: every field of a rule may be present or absent. The body of
  a PUT request is spread into it unchecked, so \<open>id\<close>, \<open>createdAt\<close> and \<open>updatedAt\<close>
  can be present too.
\<close>

record RuleUpdates =
  up_id :: "string option"
  up_name :: "string option"
  up_description :: "string option"
  up_campaignId :: "string option"
  up_conditions :: "RuleCondition list option"
  up_action :: "RuleAction option"
  up_isActive :: "bool option"
  up_createdAt :: "string option"
  up_updatedAt :: "string option"
  up_lastTriggered :: "string option"

definition override :: "'a \<Rightarrow> 'a option \<Rightarrow> 'a" where
  "override old upd = (case upd of None \<Rightarrow> old | Some v \<Rightarrow> v)"

text \<open>The object spread \<open>{...rule, ...updates, updatedAt: now}\<close>.\<close>

definition spread :: "AutomationRule \<Rightarrow> RuleUpdates \<Rightarrow> string \<Rightarrow> AutomationRule" where
  "spread rule updates now =
     \<lparr>rule_id = override (rule_id rule) (up_id updates),
      rule_name = override (rule_name rule) (up_name updates),
      rule_description =
        (case up_description updates of None \<Rightarrow> rule_description rule | Some d \<Rightarrow> Some d),
      rule_campaignId = override (rule_campaignId rule) (up_campaignId updates),
      conditions = override (conditions rule) (up_conditions updates),
      rule_action = override (rule_action rule) (up_action updates),
      isActive = override (isActive rule) (up_isActive updates),
      createdAt = override (createdAt rule) (up_createdAt updates),
      updatedAt = now,
      lastTriggered =
        (case up_lastTriggered updates of None \<Rightarrow> lastTriggered rule | Some t \<Rightarrow> Some t)\<rparr>"

definition updateRule ::
  "env \<Rightarrow> string \<Rightarrow> RuleUpdates \<Rightarrow> engine \<Rightarrow> AutomationRule option \<times> engine" where
  "updateRule e ruleId updates st =
     (case findIndex (\<lambda>rule. rule_id rule = ruleId) (rules st) of
        None \<Rightarrow> (None, st)
      | Some ruleIndex \<Rightarrow>
          (let merged = spread (rules st ! ruleIndex) updates (nowISO e (tick st))
           in (Some merged,
               st\<lparr>rules := (rules st)[ruleIndex := merged], tick := Suc (tick st)\<rparr>)))"

text \<open>\<open>splice(ruleIndex, 1)\<close> removes the element at the index.\<close>

definition deleteRule :: "string \<Rightarrow> engine \<Rightarrow> bool \<times> engine" where
  "deleteRule ruleId st =
     (case findIndex (\<lambda>rule. rule_id rule = ruleId) (rules st) of
        None \<Rightarrow> (False, st)
      | Some ruleIndex \<Rightarrow>
          (True, st\<lparr>rules := take ruleIndex (rules st) @ drop (Suc ruleIndex) (rules st)\<rparr>))"

subsection \<open>Conditions and rules\<close>

definition compareValues :: "jsnumber \<Rightarrow> ComparisonOperator \<Rightarrow> jsnumber \<Rightarrow> bool" where
  "compareValues actualValue operator expectedValue =
     (case operator of
        OpGt \<Rightarrow> js_gt actualValue expectedValue
      | OpLt \<Rightarrow> js_lt actualValue expectedValue
      | OpGe \<Rightarrow> js_ge actualValue expectedValue
      | OpLe \<Rightarrow> js_le actualValue expectedValue
      | OpEq \<Rightarrow> js_lt (js_abs (js_sub actualValue expectedValue)) (Fin (1 / 1000))
      | OpNe \<Rightarrow> js_ge (js_abs (js_sub actualValue expectedValue)) (Fin (1 / 1000))
      | OpOther s \<Rightarrow> False)"

text \<open>
  The \<open>switch\<close> over the field name. The result is \<open>None\<close> on the \<open>default\<close> branch
  (unknown field), otherwise the value read, which is itself \<open>null\<close> (\<open>None\<close>) for a
  derived metric that could not be computed.
\<close>

definition rawMetric ::
  "(string \<Rightarrow> jsnumber) \<Rightarrow> CampaignWithInsights \<Rightarrow> (CampaignInsights \<Rightarrow> string) \<Rightarrow> jsnumber option"
  where
  "rawMetric parse campaignData sel =
     (case insights campaignData of Some ins \<Rightarrow> Some (parse (sel ins)) | None \<Rightarrow> Some (Fin 0))"

definition actualValueOf ::
  "env \<Rightarrow> string \<Rightarrow> CampaignWithInsights \<Rightarrow> jsnumber option option" where
  "actualValueOf e fld campaignData =
     (if fld = ''spend'' then Some (rawMetric (parseFloat e) campaignData spend)
      else if fld = ''ctr'' then Some (rawMetric (parseFloat e) campaignData ctr)
      else if fld = ''cpc'' then Some (rawMetric (parseFloat e) campaignData cpc)
      else if fld = ''cpm'' then Some (rawMetric (parseFloat e) campaignData cpm)
      else if fld = ''clicks'' then Some (rawMetric (parseInt e) campaignData clicks)
      else if fld = ''impressions'' then Some (rawMetric (parseInt e) campaignData impressions)
      else if fld = ''reach'' then Some (rawMetric (parseInt e) campaignData reach)
      else if fld = ''frequency'' then Some (rawMetric (parseFloat e) campaignData frequency)
      else if fld = ''roas'' then Some (roas (calculatedMetrics campaignData))
      else if fld = ''costPerAction'' then Some (costPerAction (calculatedMetrics campaignData))
      else if fld = ''conversionRate'' then Some (conversionRate (calculatedMetrics campaignData))
      else None)"

definition evaluateCondition :: "env \<Rightarrow> RuleCondition \<Rightarrow> CampaignWithInsights \<Rightarrow> bool" where
  "evaluateCondition e condition campaignData =
     (case actualValueOf e (cond_field condition) campaignData of
        None \<Rightarrow> False
      | Some None \<Rightarrow> False
      | Some (Some actualValue) \<Rightarrow>
          compareValues actualValue (cond_operator condition) (cond_value condition))"

text \<open>The \<open>for\<close> loop of \<open>evaluateRule\<close>, from index \<open>i\<close> with the running \<open>result\<close>.\<close>

function evaluateLoop ::
  "env \<Rightarrow> RuleCondition list \<Rightarrow> CampaignWithInsights \<Rightarrow> nat \<Rightarrow> bool \<Rightarrow> bool" where
  "evaluateLoop e cs campaignData i result =
     (if i < length cs
      then (let condition = cs ! i;
                conditionResult = evaluateCondition e condition campaignData
            in evaluateLoop e cs campaignData (Suc i)
                 (if logicalOperator condition = Some LogicalOR
                  then result \<or> conditionResult
                  else result \<and> conditionResult))
      else result)"
  by pat_completeness auto
termination
  by (relation "measure (\<lambda>(e, cs, campaignData, i, result). length cs - i)") auto

declare evaluateLoop.simps [simp del]

definition evaluateRule :: "env \<Rightarrow> AutomationRule \<Rightarrow> CampaignWithInsights \<Rightarrow> bool" where
  "evaluateRule e rule campaignData =
     (if length (conditions rule) = 0 then False
      else if length (conditions rule) = 1
      then evaluateCondition e (conditions rule ! 0) campaignData
      else evaluateLoop e (conditions rule) campaignData 1
             (evaluateCondition e (conditions rule ! 0) campaignData))"

subsection \<open>Log store\<close>

text \<open>\<open>xs.slice(-n)\<close> for a positive \<open>n\<close>: the last \<open>n\<close> elements, all of them when there
  are fewer.\<close>

definition slice_last :: "nat \<Rightarrow> 'a list \<Rightarrow> 'a list" where
  "slice_last n xs = drop (length xs - n) xs"

definition pushLog :: "AutomationLog \<Rightarrow> AutomationLog list \<Rightarrow> AutomationLog list" where
  "pushLog entry ls =
     (let pushed = ls @ [entry]
      in if length pushed > 1000 then slice_last 1000 pushed else pushed)"

text \<open>\<open>s || '0'\<close>: the empty string is falsy.\<close>

definition or_zero :: "string \<Rightarrow> string" where
  "or_zero s = (if s = [] then ''0'' else s)"

text \<open>The entry \<open>logExecution\<close> builds when \<open>n\<close> identifiers and dates have been drawn.\<close>

definition mkLog ::
  "env \<Rightarrow> AutomationRule \<Rightarrow> CampaignWithInsights \<Rightarrow> bool \<Rightarrow> string \<Rightarrow> nat \<Rightarrow> AutomationLog"
  where
  "mkLog e rule campaignData trig why n =
     \<lparr>log_id = uuidv4 e n,
      log_ruleId = rule_id rule,
      log_campaignId = campaign_id (campaign campaignData),
      log_action = act_type (rule_action rule),
      triggered = trig,
      reason = why,
      timestamp = nowISO e (Suc n),
      metadata =
        \<lparr>meta_campaignName = campaign_name (campaign campaignData),
         meta_ruleName = rule_name rule,
         meta_spend = (case insights campaignData of None \<Rightarrow> ''0'' | Some ins \<Rightarrow> or_zero (spend ins)),
         meta_ctr = (case insights campaignData of None \<Rightarrow> ''0'' | Some ins \<Rightarrow> or_zero (ctr ins))\<rparr>\<rparr>"

definition logExecution ::
  "env \<Rightarrow> AutomationRule \<Rightarrow> CampaignWithInsights \<Rightarrow> bool \<Rightarrow> string \<Rightarrow> engine \<Rightarrow> engine" where
  "logExecution e rule campaignData trig why st =
     st\<lparr>logs := pushLog (mkLog e rule campaignData trig why (tick st)) (logs st),
        tick := tick st + 2\<rparr>"

subsection \<open>Executing actions and processing campaigns\<close>

fun actionTypeName :: "ActionType \<Rightarrow> string" where
  "actionTypeName PAUSE_CAMPAIGN = ''PAUSE_CAMPAIGN''"
| "actionTypeName ADJUST_BUDGET = ''ADJUST_BUDGET''"
| "actionTypeName LOG_EVENT = ''LOG_EVENT''"
| "actionTypeName SEND_NOTIFICATION = ''SEND_NOTIFICATION''"

text \<open>\<open>error instanceof Error ? error.message : 'Unknown error'\<close>\<close>

fun errorMessage :: "thrown \<Rightarrow> string" where
  "errorMessage (ErrorObject m) = m"
| "errorMessage NonError = ''Unknown error''"

definition stampLastTriggered :: "env \<Rightarrow> string \<Rightarrow> engine \<Rightarrow> engine" where
  "stampLastTriggered e ruleId st =
     (case findIndex (\<lambda>r. rule_id r = ruleId) (rules st) of
        None \<Rightarrow> st
      | Some ruleIndex \<Rightarrow>
          st\<lparr>rules := (rules st)[ruleIndex :=
                 (rules st ! ruleIndex)\<lparr>lastTriggered := Some (nowISO e (tick st))\<rparr>],
             tick := Suc (tick st)\<rparr>)"

text \<open>
  \<open>executeAction\<close>: the call to the executor is recorded, then the \<open>try\<close> body goes on
  when the call resolves and the \<open>catch\<close> body runs when it rejects. The executor is
  given the number of calls made before this one.
\<close>

definition executeAction ::
  "env \<Rightarrow> AutomationRule \<Rightarrow> CampaignWithInsights \<Rightarrow> engine \<Rightarrow> bool \<times> engine" where
  "executeAction e rule campaignData st =
     (let call = (campaign_id (campaign campaignData), act_type (rule_action rule),
                  act_parameters (rule_action rule));
          outcome = executor e (length (execCalls st)) (fst call) (fst (snd call)) (snd (snd call));
          st1 = st\<lparr>execCalls := execCalls st @ [call]\<rparr>
      in case outcome of
           Resolved success \<Rightarrow>
             (success,
              stampLastTriggered e (rule_id rule)
                (logExecution e rule campaignData True
                   (''Action executed successfully: '' @ actionTypeName (act_type (rule_action rule)))
                   st1))
         | Rejected err \<Rightarrow>
             (False,
              logExecution e rule campaignData False (''Action failed: '' @ errorMessage err) st1))"

text \<open>
  One turn of the loop of \<open>processCampaignRules\<close>. Nothing in the \<open>try\<close> body throws
  (\<open>executeAction\<close> catches the executor's rejection itself), so the loop's own
  \<open>catch\<close> has no branch here.
\<close>

definition processRule :: "env \<Rightarrow> CampaignWithInsights \<Rightarrow> AutomationRule \<Rightarrow> engine \<Rightarrow> engine"
  where
  "processRule e campaignData rule st =
     (if evaluateRule e rule campaignData
      then snd (executeAction e rule campaignData st)
      else logExecution e rule campaignData False ''Rule conditions not met'' st)"

fun processRules ::
  "env \<Rightarrow> CampaignWithInsights \<Rightarrow> AutomationRule list \<Rightarrow> engine \<Rightarrow> engine" where
  "processRules e campaignData [] st = st"
| "processRules e campaignData (rule # rest) st =
     processRules e campaignData rest (processRule e campaignData rule st)"

definition processCampaignRules :: "env \<Rightarrow> CampaignWithInsights \<Rightarrow> engine \<Rightarrow> engine" where
  "processCampaignRules e campaignData st =
     processRules e campaignData
       (getRulesForCampaign st (campaign_id (campaign campaignData))) st"

text \<open>
  \<open>processAllRules\<close>: a campaign whose fetch rejects is skipped; a failed fetch of the
  insights has already been turned into \<open>null\<close> by \<open>getCampaignInsights\<close>.
\<close>

fun processAllRules :: "env \<Rightarrow> string list \<Rightarrow> engine \<Rightarrow> engine" where
  "processAllRules e [] st = st"
| "processAllRules e (campaignId # rest) st =
     processAllRules e rest
       (case getCampaign e campaignId of
          Inl err \<Rightarrow> st
        | Inr c \<Rightarrow>
            (let ins = getCampaignInsights e campaignId;
                 campaignData = \<lparr>campaign = c, insights = ins,
                                 calculatedMetrics = calculateMetrics e ins,
                                 lastUpdated = nowISO e (tick st)\<rparr>
             in processCampaignRules e campaignData (st\<lparr>tick := Suc (tick st)\<rparr>)))"

section \<open>The rules route (src/app/api/automation/rules/route.ts)\<close>

text \<open>
  The parsed JSON body of a POST. A field is \<open>None\<close> when it is absent; the conditions
  field may be absent (or another falsy value), a truthy value that is not an array, or
  an array.
\<close>

datatype ConditionsField = CondAbsent | CondNotArray | CondArray "ConditionInput list"

record CreateRuleForm =
  form_name :: "string option"
  form_description :: "string option"
  form_campaignId :: "string option"
  form_conditions :: ConditionsField
  form_actionType :: "ActionType option"
  form_actionParameters :: "Parameters option"

text \<open>A response: the HTTP status with the error text, or with the rule and a message.\<close>

datatype Response = ErrorResponse nat string | RuleResponse nat AutomationRule string

text \<open>\<open>!s\<close> for an optional string: absent or empty.\<close>

definition falsy :: "string option \<Rightarrow> bool" where
  "falsy s = (case s of None \<Rightarrow> True | Some v \<Rightarrow> v = [])"

definition POST :: "env \<Rightarrow> CreateRuleForm \<Rightarrow> engine \<Rightarrow> Response \<times> engine" where
  "POST e body st =
     (if falsy (form_name body) \<or> falsy (form_campaignId body)
         \<or> form_conditions body = CondAbsent \<or> form_actionType body = None
      then (ErrorResponse 400
              ''Missing required fields: name, campaignId, conditions, actionType'', st)
      else (case form_conditions body of
              CondArray cs \<Rightarrow>
                (if length cs = 0
                 then (ErrorResponse 400 ''At least one condition is required'', st)
                 else (let created = addRule e
                             \<lparr>in_name = the (form_name body),
                              in_description =
                                Some (case form_description body of None \<Rightarrow> [] | Some d \<Rightarrow> d),
                              in_campaignId = the (form_campaignId body),
                              in_conditions = cs,
                              in_action = \<lparr>act_type = the (form_actionType body),
                                           act_parameters = form_actionParameters body\<rparr>,
                              in_isActive = True\<rparr> st
                       in (RuleResponse 201 (fst created)
                             ''Automation rule created successfully'', snd created)))
            | _ \<Rightarrow> (ErrorResponse 400 ''At least one condition is required'', st)))"

record UpdateRuleBody =
  body_ruleId :: "string option"
  body_updates :: RuleUpdates

definition PUT :: "env \<Rightarrow> UpdateRuleBody \<Rightarrow> engine \<Rightarrow> Response \<times> engine" where
  "PUT e body st =
     (if falsy (body_ruleId body) then (ErrorResponse 400 ''ruleId is required'', st)
      else (case updateRule e (the (body_ruleId body)) (body_updates body) st of
              (None, st') \<Rightarrow> (ErrorResponse 404 ''Rule not found'', st')
            | (Some updatedRule, st') \<Rightarrow>
                (RuleResponse 200 updatedRule ''Automation rule updated successfully'', st')))"

section \<open>Definitions used to state the properties\<close>

text \<open>One step of the fold of \<open>evaluateRule\<close>: the running result combined with the
  next condition under that condition's own operator.\<close>

definition combine :: "env \<Rightarrow> CampaignWithInsights \<Rightarrow> bool \<Rightarrow> RuleCondition \<Rightarrow> bool" where
  "combine e campaignData acc condition =
     (if logicalOperator condition = Some LogicalOR
      then acc \<or> evaluateCondition e condition campaignData
      else acc \<and> evaluateCondition e condition campaignData)"

text \<open>
  The fold as the specification words it, for comparison with \<open>evaluateRule\<close>: the
  operator carried by a condition governs how the result so far combines with the
  condition that follows it. \<open>opr\<close> is the operator of the condition just folded.
\<close>

fun specFold ::
  "env \<Rightarrow> CampaignWithInsights \<Rightarrow> bool \<Rightarrow> LogicalOperator option \<Rightarrow> RuleCondition list \<Rightarrow> bool"
  where
  "specFold e campaignData acc opr [] = acc"
| "specFold e campaignData acc opr (c # cs) =
     specFold e campaignData
       (if opr = Some LogicalOR then acc \<or> evaluateCondition e c campaignData
        else acc \<and> evaluateCondition e c campaignData)
       (logicalOperator c) cs"

definition specEvaluateRule :: "env \<Rightarrow> AutomationRule \<Rightarrow> CampaignWithInsights \<Rightarrow> bool" where
  "specEvaluateRule e rule campaignData =
     (case conditions rule of
        [] \<Rightarrow> False
      | c # cs \<Rightarrow> specFold e campaignData (evaluateCondition e c campaignData) (logicalOperator c) cs)"

text \<open>The field names the \<open>switch\<close> of \<open>evaluateCondition\<close> has a case for.\<close>

definition recognizedFields :: "string list" where
  "recognizedFields =
     [''spend'', ''ctr'', ''cpc'', ''cpm'', ''clicks'', ''impressions'', ''reach'', ''frequency'',
      ''roas'', ''costPerAction'', ''conversionRate'']"





subsection \<open>A sample campaign\<close>

text \<open>A parser that knows the few numerals of the samples; every other string has no
  number in it.\<close>

definition sampleParse :: "string \<Rightarrow> jsnumber" where
  "sampleParse s =
     (if s = ''0'' then Fin 0 else if s = ''1'' then Fin 1
      else if s = ''150'' then Fin 150 else NaN)"

definition sampleEnv ::
  "(nat \<Rightarrow> string \<Rightarrow> ActionType \<Rightarrow> Parameters option \<Rightarrow> exec_outcome) \<Rightarrow> env" where
  "sampleEnv exec =
     \<lparr>parseFloat = sampleParse, parseInt = sampleParse,
      uuidv4 = (\<lambda>n. ''id-'' @ replicate n CHR ''i''),
      nowISO = (\<lambda>n. ''t-'' @ replicate n CHR ''t''),
      executor = exec,
      getCampaign = (\<lambda>campaignId. Inl NonError),
      getCampaignInsights = (\<lambda>campaignId. None)\<rparr>"

definition sampleCampaign :: Campaign where
  "sampleCampaign =
     \<lparr>campaign_id = ''120225449479650554'', campaign_name = ''Sample'',
      campaign_status = ''ACTIVE'', objective = ''OUTCOME_SALES'',
      created_time = [], updated_time = []\<rparr>"

definition sampleInsights :: "string \<Rightarrow> CampaignInsights" where
  "sampleInsights spent =
     \<lparr>spend = spent, actions = None, clicks = ''1'', impressions = ''150'', ctr = ''1'',
      cpc = ''1'', cpm = ''1'', reach = ''150'', frequency = ''1'',
      date_start = [], date_stop = []\<rparr>"

definition sampleData :: "string \<Rightarrow> CampaignWithInsights" where
  "sampleData spent =
     \<lparr>campaign = sampleCampaign, insights = Some (sampleInsights spent),
      calculatedMetrics = calculateMetrics (sampleEnv MetaAdsService_executeAction)
                            (Some (sampleInsights spent)),
      lastUpdated = []\<rparr>"

definition sampleCondition ::
  "string \<Rightarrow> ComparisonOperator \<Rightarrow> real \<Rightarrow> LogicalOperator option \<Rightarrow> RuleCondition" where
  "sampleCondition fld opr v lop =
     \<lparr>cond_id = ''c-'' @ fld, cond_field = fld, cond_operator = opr, cond_value = Fin v,
      logicalOperator = lop\<rparr>"

definition sampleRule :: "string \<Rightarrow> RuleCondition list \<Rightarrow> AutomationRule" where
  "sampleRule ruleId cs =
     \<lparr>rule_id = ruleId, rule_name = ''Sample rule'', rule_description = None,
      rule_campaignId = ''120225449479650554'', conditions = cs,
      rule_action = \<lparr>act_type = PAUSE_CAMPAIGN, act_parameters = None\<rparr>,
      isActive = True, createdAt = ''2025-01-01'', updatedAt = ''2025-01-01'',
      lastTriggered = None\<rparr>"

definition sampleStore :: "AutomationRule list \<Rightarrow> engine" where
  "sampleStore rs = \<lparr>rules = rs, logs = [], tick = 0, execCalls = []\<rparr>"

definition sampleConditionInput :: ConditionInput where
  "sampleConditionInput =
     \<lparr>ci_field = ''spend'', ci_operator = OpGt, ci_value = Fin 100, ci_logicalOperator = None\<rparr>"

definition sampleForm :: "ConditionsField \<Rightarrow> CreateRuleForm" where
  "sampleForm cs =
     \<lparr>form_name = Some ''High Spend Protection'', form_description = None,
      form_campaignId = Some ''120225449479650554'', form_conditions = cs,
      form_actionType = Some PAUSE_CAMPAIGN, form_actionParameters = None\<rparr>"

definition noUpdates :: RuleUpdates where
  "noUpdates =
     \<lparr>up_id = None, up_name = None, up_description = None, up_campaignId = None,
      up_conditions = None, up_action = None, up_isActive = None,
      up_createdAt = None, up_updatedAt = None, up_lastTriggered = None\<rparr>"

text \<open>Executors for the samples: one that rejects with a message, one that resolves with
  \<open>success: false\<close>.\<close>

definition rejectingExecutor ::
  "nat \<Rightarrow> string \<Rightarrow> ActionType \<Rightarrow> Parameters option \<Rightarrow> exec_outcome" where
  "rejectingExecutor n campaignId action parameters = Rejected (ErrorObject ''timeout'')"

definition unsuccessfulExecutor ::
  "nat \<Rightarrow> string \<Rightarrow> ActionType \<Rightarrow> Parameters option \<Rightarrow> exec_outcome" where
  "unsuccessfulExecutor n campaignId action parameters = Resolved False"

section \<open>Comparison of values\<close>






text \<open>
  C10, as stated: \<open>!=\<close> returns the negation of \<open>=\<close> for every actual value and
  threshold. It fails when the actual value is NaN, which is what \<open>parseFloat\<close> returns
  for a metric string that holds no number: both comparisons are false.
\<close>

theorem compareValues_ne_not_negation_at_NaN:
  "compareValues NaN OpNe (Fin 10) \<noteq> (\<not> compareValues NaN OpEq (Fin 10))"
  by (simp add: compareValues_def js_ge_def js_sub_def)

text \<open>
  C10, amended: whenever the difference of the actual value and the threshold is a
  number (not NaN), as it is for all finite values, \<open>!=\<close> returns exactly the negation
  of \<open>=\<close>.
\<close>

theorem compareValues_ne_negates_eq:
  "js_sub a t \<noteq> NaN \<Longrightarrow> compareValues a OpNe t = (\<not> compareValues a OpEq t)"
  by (cases "js_sub a t") (auto simp add: compareValues_def js_ge_def)

theorem compareValues_ne_negates_eq_witness:
  "js_sub (Fin 9.99) (Fin 10) \<noteq> NaN
   \<and> compareValues (Fin 9.99) OpNe (Fin 10) = (\<not> compareValues (Fin 9.99) OpEq (Fin 10))"
  using compareValues_ne_negates_eq [of "Fin 9.99" "Fin 10"] by (simp add: js_sub_def)

section \<open>Evaluation of a rule\<close>

lemmas sample_defs = sampleEnv_def sampleData_def sampleInsights_def sampleCampaign_def
  sampleCondition_def sampleRule_def sampleParse_def sampleStore_def sampleConditionInput_def
  sampleForm_def noUpdates_def rejectingExecutor_def unsuccessfulExecutor_def

lemmas eval_defs = evaluateRule_def evaluateLoop.simps evaluateCondition_def actualValueOf_def
  rawMetric_def compareValues_def js_gt_def js_ge_def js_sub_def

lemma evaluateLoop_step:
  "i < length cs \<Longrightarrow>
   evaluateLoop e cs d i result = evaluateLoop e cs d (Suc i) (combine e d result (cs ! i))"
  by (subst evaluateLoop.simps) (simp add: combine_def Let_def)

lemma evaluateLoop_exit: "\<not> i < length cs \<Longrightarrow> evaluateLoop e cs d i result = result"
  by (subst evaluateLoop.simps) simp

text \<open>The loop from index \<open>i\<close> is the left fold of \<open>combine\<close> over the conditions from
  \<open>i\<close> on. Induction on the number of conditions left.\<close>

lemma evaluateLoop_foldl:
  "evaluateLoop e cs d i result = foldl (combine e d) result (drop i cs)"
proof (induction "length cs - i" arbitrary: i result)
  case 0
  then show ?case by (simp add: evaluateLoop_exit)
next
  case (Suc n)
  then have less: "i < length cs" and n: "n = length cs - Suc i" by simp_all
  have "evaluateLoop e cs d i result = evaluateLoop e cs d (Suc i) (combine e d result (cs ! i))"
    using less by (rule evaluateLoop_step)
  also have "\<dots> = foldl (combine e d) (combine e d result (cs ! i)) (drop (Suc i) cs)"
    using n by (rule Suc.hyps(1))
  also have "\<dots> = foldl (combine e d) result (cs ! i # drop (Suc i) cs)"
    by simp
  also have "cs ! i # drop (Suc i) cs = drop i cs"
    using less by (rule Cons_nth_drop_Suc)
  finally show ?case .
qed

lemma evaluateRule_Cons:
  "conditions rule = c0 # rest \<Longrightarrow>
   evaluateRule e rule d = foldl (combine e d) (evaluateCondition e c0 d) rest"
  by (cases rest) (simp_all add: evaluateRule_def evaluateLoop_foldl)

lemma evaluateCondition_logicalOperator:
  "evaluateCondition e (c\<lparr>logicalOperator := lop\<rparr>) d = evaluateCondition e c d"
  by (simp add: evaluateCondition_def split: option.splits)

text \<open>
  C1, as stated: the operator attached to condition \<open>i\<close> governs how it combines with
  condition \<open>i+1\<close>, so that for \<open>[A, B]\<close> with OR on \<open>A\<close> and \<open>A\<close> true the rule is true.
  On the sample campaign (spend 150, ctr 1) the rule \<open>[spend > 100 (OR), ctr > 5]\<close> has a
  true first condition carrying OR, the fold worded by the specification gives true,
  and \<open>evaluateRule\<close> gives false: it reads the operator of \<open>ctr > 5\<close>, which is absent and
  so AND.
\<close>

theorem evaluateRule_ignores_operator_of_first:
  "evaluateCondition (sampleEnv MetaAdsService_executeAction)
     (sampleCondition ''spend'' OpGt 100 (Some LogicalOR)) (sampleData ''150'')
   \<and> specEvaluateRule (sampleEnv MetaAdsService_executeAction)
       (sampleRule ''r1'' [sampleCondition ''spend'' OpGt 100 (Some LogicalOR),
                           sampleCondition ''ctr'' OpGt 5 None]) (sampleData ''150'')
   \<and> \<not> evaluateRule (sampleEnv MetaAdsService_executeAction)
       (sampleRule ''r1'' [sampleCondition ''spend'' OpGt 100 (Some LogicalOR),
                           sampleCondition ''ctr'' OpGt 5 None]) (sampleData ''150'')"
  by (simp add: eval_defs sample_defs specEvaluateRule_def)

text \<open>
  C1, amended: for every rule with at least two conditions, the trigger decision is the
  strict left-to-right fold of the condition results in which the operator attached to
  condition \<open>i\<close> (absent means AND), for \<open>i \<ge> 1\<close>, governs how the result of the
  conditions before it combines with condition \<open>i\<close>'s own result; the operator of the
  first condition is never read. In particular, for \<open>[A, B]\<close> where \<open>B\<close> carries OR, if
  \<open>A\<close> evaluates true the rule is true whatever \<open>B\<close> evaluates to.
\<close>

theorem evaluateRule_left_fold:
  assumes "conditions rule = c0 # c1 # rest"
  shows "evaluateRule e rule d = foldl (combine e d) (evaluateCondition e c0 d) (c1 # rest)
    \<and> evaluateRule e (rule\<lparr>conditions := c0\<lparr>logicalOperator := lop\<rparr> # c1 # rest\<rparr>) d
        = evaluateRule e rule d
    \<and> (rest = [] \<and> logicalOperator c1 = Some LogicalOR \<and> evaluateCondition e c0 d
          \<longrightarrow> evaluateRule e rule d)"
proof -
  have fold: "evaluateRule e rule d
              = foldl (combine e d) (evaluateCondition e c0 d) (c1 # rest)"
    using assms by (rule evaluateRule_Cons)
  have "evaluateRule e (rule\<lparr>conditions := c0\<lparr>logicalOperator := lop\<rparr> # c1 # rest\<rparr>) d
        = foldl (combine e d) (evaluateCondition e (c0\<lparr>logicalOperator := lop\<rparr>) d) (c1 # rest)"
    by (rule evaluateRule_Cons) simp
  then have same: "evaluateRule e (rule\<lparr>conditions := c0\<lparr>logicalOperator := lop\<rparr> # c1 # rest\<rparr>) d
        = evaluateRule e rule d"
    by (simp only: fold evaluateCondition_logicalOperator)
  have "evaluateRule e rule d"
    if "rest = []" and "logicalOperator c1 = Some LogicalOR" and "evaluateCondition e c0 d"
    using that by (simp add: fold combine_def)
  with fold same show ?thesis by blast
qed

theorem evaluateRule_left_fold_witness:
  "conditions (sampleRule ''r1'' [sampleCondition ''spend'' OpGt 100 None,
                                  sampleCondition ''ctr'' OpGt 5 (Some LogicalOR)])
     = [sampleCondition ''spend'' OpGt 100 None, sampleCondition ''ctr'' OpGt 5 (Some LogicalOR)]
   \<and> logicalOperator (sampleCondition ''ctr'' OpGt 5 (Some LogicalOR)) = Some LogicalOR
   \<and> evaluateCondition (sampleEnv MetaAdsService_executeAction)
       (sampleCondition ''spend'' OpGt 100 None) (sampleData ''150'')
   \<and> \<not> evaluateCondition (sampleEnv MetaAdsService_executeAction)
       (sampleCondition ''ctr'' OpGt 5 (Some LogicalOR)) (sampleData ''150'')
   \<and> evaluateRule (sampleEnv MetaAdsService_executeAction)
       (sampleRule ''r1'' [sampleCondition ''spend'' OpGt 100 None,
                           sampleCondition ''ctr'' OpGt 5 (Some LogicalOR)]) (sampleData ''150'')"
proof -
  let ?A = "sampleCondition ''spend'' OpGt 100 None"
  let ?B = "sampleCondition ''ctr'' OpGt 5 (Some LogicalOR)"
  let ?e = "sampleEnv MetaAdsService_executeAction"
  have cs: "conditions (sampleRule ''r1'' [?A, ?B]) = [?A, ?B]"
    by (simp add: sampleRule_def)
  have lo: "logicalOperator ?B = Some LogicalOR"
    by (simp add: sampleCondition_def)
  have a: "evaluateCondition ?e ?A (sampleData ''150'')"
    by (simp add: eval_defs sample_defs)
  have b: "\<not> evaluateCondition ?e ?B (sampleData ''150'')"
    by (simp add: eval_defs sample_defs)
  from evaluateRule_left_fold [OF cs, of ?e "sampleData ''150''"] lo a
  have "evaluateRule ?e (sampleRule ''r1'' [?A, ?B]) (sampleData ''150'')" by blast
  with cs lo a b show ?thesis by blast
qed

section \<open>The log store\<close>

lemma slice_last_append:
  "slice_last n (slice_last n xs @ ys) = slice_last n (xs @ ys)"
proof (cases "n \<le> length xs")
  case True
  then have "length xs + length ys - (length xs - n + n) + (length xs - n)
             = length xs + length ys - n" by simp
  then show ?thesis by (simp add: slice_last_def)
next
  case False
  then show ?thesis by (simp add: slice_last_def)
qed

lemma pushLog_slice: "pushLog x ls = slice_last 1000 (ls @ [x])"
  by (simp add: pushLog_def slice_last_def Let_def)



lemma logs_logExecution:
  "logs (logExecution e r d t w st) = pushLog (mkLog e r d t w (tick st)) (logs st)"
  by (simp add: logExecution_def)


lemma execCalls_logExecution: "execCalls (logExecution e r d t w st) = execCalls st"
  by (simp add: logExecution_def)





section \<open>Processing a campaign\<close>



section \<open>Updating a rule\<close>






section \<open>Derived metrics\<close>

text \<open>
  C4. For every snapshot whose spend resolves to 0 (an absent snapshot included), the
  derived metric roas is null, and every condition on the field roas evaluates to false
  whatever its operator and threshold; a rule made of that condition evaluates to false
  (evaluation returns, nothing is thrown).
\<close>

theorem roas_null_on_zero_spend:
  assumes "rawMetric (parseFloat e) d spend = Some (Fin 0)"
    and "calculatedMetrics d = calculateMetrics e (insights d)"
    and "cond_field c = ''roas''"
  shows "roas (calculateMetrics e (insights d)) = None
     \<and> \<not> evaluateCondition e c d
     \<and> (conditions rule = [c] \<longrightarrow> \<not> evaluateRule e rule d)"
proof -
  have r: "roas (calculateMetrics e (insights d)) = None"
    using assms(1)
    by (cases "insights d") (simp_all add: calculateMetrics_def rawMetric_def Let_def js_gt_def)
  then have c: "\<not> evaluateCondition e c d"
    using assms(2,3) by (simp add: evaluateCondition_def actualValueOf_def)
  then have "conditions rule = [c] \<longrightarrow> \<not> evaluateRule e rule d"
    by (simp add: evaluateRule_def)
  with r c show ?thesis by blast
qed

theorem roas_null_on_zero_spend_witness:
  "rawMetric (parseFloat (sampleEnv MetaAdsService_executeAction)) (sampleData ''0'') spend = Some (Fin 0)
   \<and> calculatedMetrics (sampleData ''0'')
       = calculateMetrics (sampleEnv MetaAdsService_executeAction) (insights (sampleData ''0''))
   \<and> cond_field (sampleCondition ''roas'' OpLt 1.5 None) = ''roas''
   \<and> conditions (sampleRule ''r1'' [sampleCondition ''roas'' OpLt 1.5 None])
       = [sampleCondition ''roas'' OpLt 1.5 None]
   \<and> roas (calculatedMetrics (sampleData ''0'')) = None
   \<and> \<not> evaluateRule (sampleEnv MetaAdsService_executeAction)
         (sampleRule ''r1'' [sampleCondition ''roas'' OpLt 1.5 None]) (sampleData ''0'')"
proof -
  let ?e = "sampleEnv MetaAdsService_executeAction"
  let ?c = "sampleCondition ''roas'' OpLt 1.5 None"
  have spend0: "rawMetric (parseFloat ?e) (sampleData ''0'') spend = Some (Fin 0)"
    by (simp add: rawMetric_def sample_defs)
  have metrics: "calculatedMetrics (sampleData ''0'') = calculateMetrics ?e (insights (sampleData ''0''))"
    by (simp add: sampleData_def)
  have fld: "cond_field ?c = ''roas''"
    by (simp add: sampleCondition_def)
  have cs: "conditions (sampleRule ''r1'' [?c]) = [?c]"
    by (simp add: sampleRule_def)
  from roas_null_on_zero_spend [OF spend0 metrics fld, of "sampleRule ''r1'' [?c]"] cs metrics
  have "roas (calculatedMetrics (sampleData ''0'')) = None"
    and "\<not> evaluateRule ?e (sampleRule ''r1'' [?c]) (sampleData ''0'')"
    by simp_all
  with spend0 metrics fld cs show ?thesis by blast
qed

section \<open>Creating a rule\<close>

lemma POST_created:
  assumes "POST e body st = (RuleResponse status rule msg, st')"
  shows "\<exists>cs inp. form_conditions body = CondArray cs \<and> cs \<noteq> [] \<and> in_conditions inp = cs
           \<and> rule = fst (addRule e inp st) \<and> st' = snd (addRule e inp st)"
proof (cases "form_conditions body")
  case CondAbsent
  with assms show ?thesis by (simp add: POST_def)
next
  case CondNotArray
  with assms show ?thesis by (simp add: POST_def split: if_splits)
next
  case (CondArray cs)
  let ?inp = "\<lparr>in_name = the (form_name body),
               in_description = Some (case form_description body of None \<Rightarrow> [] | Some d \<Rightarrow> d),
               in_campaignId = the (form_campaignId body),
               in_conditions = cs,
               in_action = \<lparr>act_type = the (form_actionType body),
                            act_parameters = form_actionParameters body\<rparr>,
               in_isActive = True\<rparr>"
  from assms CondArray have "cs \<noteq> []" "rule = fst (addRule e ?inp st)"
    "st' = snd (addRule e ?inp st)"
    by (auto simp add: POST_def Let_def split: if_splits)
  with CondArray show ?thesis by (intro exI [of _ cs] exI [of _ ?inp]) simp
qed

lemma length_number_conditions: "length (number_conditions e n cs) = length cs"
  by (induction cs arbitrary: n) auto

lemma conditions_addRule:
  "length (conditions (fst (addRule e inp st))) = length (in_conditions inp)"
  by (simp add: addRule_def Let_def length_number_conditions)

lemma rules_addRule: "rules (snd (addRule e inp st)) = rules st @ [fst (addRule e inp st)]"
  by (simp add: addRule_def Let_def)

lemma logs_addRule: "logs (snd (addRule e inp st)) = logs st"
  by (simp add: addRule_def Let_def)

text \<open>
  C9, as stated: since creation rejects an empty conditions sequence, every stored rule
  has a non-empty one. A rule stored by POST does, but PUT spreads the body over it
  unchecked: an update with \<open>conditions: []\<close> leaves the stored rule without
  conditions.
\<close>

theorem PUT_stores_empty_conditions:
  "map (\<lambda>rule. length (conditions rule))
       (rules (snd (POST (sampleEnv MetaAdsService_executeAction)
          (sampleForm (CondArray [sampleConditionInput])) (sampleStore [])))) = [1]
   \<and> map rule_id (rules (snd (POST (sampleEnv MetaAdsService_executeAction)
        (sampleForm (CondArray [sampleConditionInput])) (sampleStore [])))) = [''id-'']
   \<and> map conditions (rules (snd (PUT (sampleEnv MetaAdsService_executeAction)
        \<lparr>body_ruleId = Some ''id-'', body_updates = noUpdates\<lparr>up_conditions := Some []\<rparr>\<rparr>
        (snd (POST (sampleEnv MetaAdsService_executeAction)
           (sampleForm (CondArray [sampleConditionInput])) (sampleStore [])))))) = [[]]"
  by (simp add: POST_def PUT_def addRule_def updateRule_def spread_def override_def falsy_def
      sample_defs Let_def)

text \<open>
  C9, amended: creating a rule through POST with an empty conditions sequence is
  rejected with status 400 before storage and leaves the state, and so the size of the
  rule store, unchanged; every rule that POST stores has a non-empty conditions
  sequence when it is stored.
\<close>

theorem POST_rejects_empty_conditions:
  "(form_conditions body = CondArray [] \<longrightarrow>
      (\<exists>msg. POST e body st = (ErrorResponse 400 msg, st)))
   \<and> (POST e body st = (RuleResponse status rule msg, st') \<longrightarrow>
        conditions rule \<noteq> [] \<and> rules st' = rules st @ [rule])"
proof -
  have "\<exists>msg. POST e body st = (ErrorResponse 400 msg, st)"
    if "form_conditions body = CondArray []"
    using that by (simp add: POST_def)
  moreover have "conditions rule \<noteq> [] \<and> rules st' = rules st @ [rule]"
    if "POST e body st = (RuleResponse status rule msg, st')"
  proof -
    from POST_created [OF that] obtain cs inp where
      "rule = fst (addRule e inp st)" "st' = snd (addRule e inp st)" "in_conditions inp = cs"
      "cs \<noteq> []"
      by (elim exE conjE) (rule that, assumption+)
    then show ?thesis
      using conditions_addRule [of e inp st] rules_addRule [of e inp st] by auto
  qed
  ultimately show ?thesis by blast
qed

theorem POST_rejects_empty_conditions_witness:
  "form_conditions (sampleForm (CondArray [])) = CondArray []
   \<and> (\<exists>msg. POST (sampleEnv MetaAdsService_executeAction) (sampleForm (CondArray []))
          (sampleStore [sampleRule ''r1'' []])
        = (ErrorResponse 400 msg, sampleStore [sampleRule ''r1'' []]))
   \<and> (\<exists>rule msg st'. POST (sampleEnv MetaAdsService_executeAction)
          (sampleForm (CondArray [sampleConditionInput])) (sampleStore [sampleRule ''r1'' []])
        = (RuleResponse 201 rule msg, st')
        \<and> conditions rule \<noteq> [] \<and> rules st' = rules (sampleStore [sampleRule ''r1'' []]) @ [rule])"
proof -
  let ?e = "sampleEnv MetaAdsService_executeAction"
  let ?st = "sampleStore [sampleRule ''r1'' []]"
  have empty: "form_conditions (sampleForm (CondArray [])) = CondArray []"
    by (simp add: sampleForm_def)
  note rejected = POST_rejects_empty_conditions [of "sampleForm (CondArray [])" ?e ?st,
      THEN conjunct1, THEN mp, OF empty]
  obtain resp st' where post: "POST ?e (sampleForm (CondArray [sampleConditionInput])) ?st = (resp, st')"
    by (cases "POST ?e (sampleForm (CondArray [sampleConditionInput])) ?st")
  then obtain rule msg where resp: "resp = RuleResponse 201 rule msg"
    by (auto simp add: POST_def sampleForm_def falsy_def Let_def)
  with post have created: "POST ?e (sampleForm (CondArray [sampleConditionInput])) ?st
      = (RuleResponse 201 rule msg, st')" by simp
  note stored = POST_rejects_empty_conditions [of _ ?e ?st 201 rule msg st',
      THEN conjunct2, THEN mp, OF created]
  have "\<exists>rule msg st'. POST ?e (sampleForm (CondArray [sampleConditionInput])) ?st
        = (RuleResponse 201 rule msg, st')
        \<and> conditions rule \<noteq> [] \<and> rules st' = rules ?st @ [rule]"
    apply (rule exI [of _ rule])
    apply (rule exI [of _ msg])
    apply (rule exI [of _ st'])
    apply (rule conjI)
     apply (rule created)
    apply (rule stored)
    done
  with empty rejected show ?thesis by (intro conjI)
qed

section \<open>Processing the rules of a campaign\<close>

lemmas run_defs = processCampaignRules_def getRulesForCampaign_def processRule_def
  executeAction_def logExecution_def mkLog_def pushLog_def slice_last_def or_zero_def
  stampLastTriggered_def Let_def

lemma processRule_not_met:
  "\<not> evaluateRule e rule d \<Longrightarrow>
   processRule e d rule st = logExecution e rule d False ''Rule conditions not met'' st"
  by (simp add: processRule_def)

lemma processRule_rejected:
  "evaluateRule e rule d \<Longrightarrow>
   executor e (length (execCalls st)) (campaign_id (campaign d)) (act_type (rule_action rule))
     (act_parameters (rule_action rule)) = Rejected err \<Longrightarrow>
   processRule e d rule st
     = logExecution e rule d False (''Action failed: '' @ errorMessage err)
         (st\<lparr>execCalls := execCalls st @ [(campaign_id (campaign d), act_type (rule_action rule),
                                           act_parameters (rule_action rule))]\<rparr>)"
  by (simp add: processRule_def executeAction_def Let_def)

lemma processRule_resolved:
  "evaluateRule e rule d \<Longrightarrow>
   executor e (length (execCalls st)) (campaign_id (campaign d)) (act_type (rule_action rule))
     (act_parameters (rule_action rule)) = Resolved success \<Longrightarrow>
   processRule e d rule st
     = stampLastTriggered e (rule_id rule)
         (logExecution e rule d True
            (''Action executed successfully: '' @ actionTypeName (act_type (rule_action rule)))
            (st\<lparr>execCalls := execCalls st @ [(campaign_id (campaign d), act_type (rule_action rule),
                                              act_parameters (rule_action rule))]\<rparr>))"
  by (simp add: processRule_def executeAction_def Let_def)

lemma logs_stampLastTriggered: "logs (stampLastTriggered e i st) = logs st"
  by (simp add: stampLastTriggered_def split: option.splits)

lemma processRule_entry:
  "\<exists>trig why. logs (processRule e d rule st)
     = pushLog (mkLog e rule d trig why (tick st)) (logs st)"
proof (cases "evaluateRule e rule d")
  case False
  then show ?thesis by (auto simp add: processRule_not_met logs_logExecution)
next
  case True
  show ?thesis
  proof (cases "executor e (length (execCalls st)) (campaign_id (campaign d))
      (act_type (rule_action rule)) (act_parameters (rule_action rule))")
    case (Rejected err)
    with True show ?thesis by (auto simp add: processRule_rejected logs_logExecution)
  next
    case (Resolved success)
    with True show ?thesis
      by (auto simp add: processRule_resolved logs_logExecution logs_stampLastTriggered)
  qed
qed

lemma log_ruleId_mkLog: "log_ruleId (mkLog e rule d trig why n) = rule_id rule"
  by (simp add: mkLog_def)

lemma processRules_entries:
  "\<exists>entries. map log_ruleId entries = map rule_id rs
     \<and> logs (processRules e d rs st)
        = (if rs = [] then logs st else slice_last 1000 (logs st @ entries))"
proof (induction rs arbitrary: st)
  case Nil
  then show ?case by simp
next
  case (Cons rule rs)
  obtain trig why where first:
    "logs (processRule e d rule st) = pushLog (mkLog e rule d trig why (tick st)) (logs st)"
    using processRule_entry by blast
  let ?x = "mkLog e rule d trig why (tick st)"
  from Cons.IH [of "processRule e d rule st"] obtain entries where
    ids: "map log_ruleId entries = map rule_id rs" and
    rest: "logs (processRules e d rs (processRule e d rule st))
       = (if rs = [] then logs (processRule e d rule st)
          else slice_last 1000 (logs (processRule e d rule st) @ entries))"
    by blast
  have "map log_ruleId (?x # entries) = map rule_id (rule # rs)"
    using ids by (simp add: log_ruleId_mkLog)
  moreover have "logs (processRules e d (rule # rs) st) = slice_last 1000 (logs st @ ?x # entries)"
  proof (cases "rs = []")
    case True
    with ids have "entries = []" by simp
    with True rest first show ?thesis by (simp add: pushLog_slice)
  next
    case False
    with rest first show ?thesis by (simp add: pushLog_slice slice_last_append)
  qed
  ultimately show ?case by (intro exI [of _ "?x # entries"]) simp
qed


text \<open>The \<open>default\<close> branch of the \<open>switch\<close> is taken exactly for the fields outside
  \<open>recognizedFields\<close>.\<close>

lemma unknown_field_actualValueOf:
  "fld \<notin> set recognizedFields \<Longrightarrow> actualValueOf e fld d = None"
  by (simp add: recognizedFields_def actualValueOf_def)

lemma recognized_field_actualValueOf:
  "fld \<in> set recognizedFields \<Longrightarrow> actualValueOf e fld d \<noteq> None"
  by (auto simp add: recognizedFields_def actualValueOf_def)

text \<open>
  C7, as stated: an unknown field makes the condition false, the failure is recorded in
  the rule's log reason, and evaluation goes on. The condition is false and evaluation
  goes on, but the failure is only written to the console: the log entry of a rule with
  the unknown field \<open>bogus\<close> has the reason of any rule whose conditions are not met,
  and the log is the very log a recognised, unmet condition leaves.
\<close>

theorem unknown_field_leaves_no_trace_in_log:
  "cond_field (sampleCondition ''bogus'' OpGt 100 None) \<notin> set recognizedFields
   \<and> map reason (logs (processCampaignRules (sampleEnv MetaAdsService_executeAction)
         (sampleData ''150'')
         (sampleStore [sampleRule ''r1'' [sampleCondition ''bogus'' OpGt 100 None]])))
       = [''Rule conditions not met'']
   \<and> logs (processCampaignRules (sampleEnv MetaAdsService_executeAction) (sampleData ''150'')
         (sampleStore [sampleRule ''r1'' [sampleCondition ''bogus'' OpGt 100 None]]))
     = logs (processCampaignRules (sampleEnv MetaAdsService_executeAction) (sampleData ''150'')
         (sampleStore [sampleRule ''r1'' [sampleCondition ''ctr'' OpGt 5 None]]))"
  by (simp add: run_defs eval_defs sample_defs recognizedFields_def)

text \<open>
  C7, amended: a condition whose field is not one of the recognised raw and derived
  metric fields evaluates to false and nothing is thrown: the fold goes on over the
  remaining conditions with that result, a rule made of that condition alone is logged
  with triggered = false and the reason \<open>Rule conditions not met\<close> (the unknown field
  itself is not recorded in the log), and the remaining rules are processed, each
  leaving its one log entry.
\<close>

theorem unknown_field_is_false:
  assumes "cond_field c \<notin> set recognizedFields"
  shows "\<not> evaluateCondition e c d
     \<and> combine e d acc c = (acc \<and> logicalOperator c = Some LogicalOR)
     \<and> (conditions rule = c # rest \<longrightarrow> evaluateRule e rule d = foldl (combine e d) False rest)
     \<and> (conditions rule = [c] \<longrightarrow>
          processRule e d rule st = logExecution e rule d False ''Rule conditions not met'' st)
     \<and> processRules e d (rule # others) st = processRules e d others (processRule e d rule st)
     \<and> (\<exists>entries. map log_ruleId entries = map rule_id (rule # others)
          \<and> logs (processRules e d (rule # others) st) = slice_last 1000 (logs st @ entries))"
proof -
  have false: "\<not> evaluateCondition e c d"
    using assms by (simp add: evaluateCondition_def unknown_field_actualValueOf)
  then have comb: "combine e d acc c = (acc \<and> logicalOperator c = Some LogicalOR)"
    by (simp add: combine_def)
  have fold: "evaluateRule e rule d = foldl (combine e d) False rest"
    if "conditions rule = c # rest"
    using false by (simp add: evaluateRule_Cons [OF that])
  have single: "processRule e d rule st = logExecution e rule d False ''Rule conditions not met'' st"
    if "conditions rule = [c]"
  proof -
    have "\<not> evaluateRule e rule d"
      using false by (simp add: evaluateRule_Cons [OF that])
    then show ?thesis by (rule processRule_not_met)
  qed
  have step: "processRules e d (rule # others) st = processRules e d others (processRule e d rule st)"
    by simp
  have "\<exists>entries. map log_ruleId entries = map rule_id (rule # others)
          \<and> logs (processRules e d (rule # others) st) = slice_last 1000 (logs st @ entries)"
    using processRules_entries [of "rule # others" e d st] by simp
  with false comb fold single step show ?thesis by blast
qed

theorem unknown_field_is_false_witness:
  "cond_field (sampleCondition ''bogus'' OpGt 100 None) \<notin> set recognizedFields
   \<and> conditions (sampleRule ''r1'' [sampleCondition ''bogus'' OpGt 100 None])
       = [sampleCondition ''bogus'' OpGt 100 None]
   \<and> \<not> evaluateCondition (sampleEnv MetaAdsService_executeAction)
         (sampleCondition ''bogus'' OpGt 100 None) (sampleData ''150'')
   \<and> processRule (sampleEnv MetaAdsService_executeAction) (sampleData ''150'')
       (sampleRule ''r1'' [sampleCondition ''bogus'' OpGt 100 None])
       (sampleStore [sampleRule ''r1'' [sampleCondition ''bogus'' OpGt 100 None]])
     = logExecution (sampleEnv MetaAdsService_executeAction)
         (sampleRule ''r1'' [sampleCondition ''bogus'' OpGt 100 None]) (sampleData ''150'')
         False ''Rule conditions not met''
         (sampleStore [sampleRule ''r1'' [sampleCondition ''bogus'' OpGt 100 None]])"
proof -
  let ?c = "sampleCondition ''bogus'' OpGt 100 None"
  let ?e = "sampleEnv MetaAdsService_executeAction"
  have unknown: "cond_field ?c \<notin> set recognizedFields"
    by (simp add: sampleCondition_def recognizedFields_def)
  have cs: "conditions (sampleRule ''r1'' [?c]) = [?c]"
    by (simp add: sampleRule_def)
  note t = unknown_field_is_false [OF unknown, of ?e "sampleData ''150''" _ "sampleRule ''r1'' [?c]" _
      "sampleStore [sampleRule ''r1'' [?c]]"]
  from t have a: "\<not> evaluateCondition ?e ?c (sampleData ''150'')"
    by (rule conjunct1)
  note b = t [THEN conjunct2, THEN conjunct2, THEN conjunct2, THEN conjunct1, THEN mp, OF cs]
  from unknown cs a b show ?thesis by (intro conjI)
qed




end
